theory Spec2Isabelle
  imports Complex_Main "HOL-Library.Sublist"
begin

section \<open>Strings\<close>

text \<open>
  Python strings are modelled as \<open>string\<close>, each \<open>char\<close> standing for one code point
  below 256. \<open>str.lower\<close> maps \<open>A\<close>..\<open>Z\<close> and the Latin-1 capitals (192..222 except
  215) to the code point 32 above and leaves every other code point below 256 unchanged.
\<close>

definition lower_char :: "char \<Rightarrow> char" where
  "lower_char c =
     (let n = (of_char c :: nat)
      in if (65 \<le> n \<and> n \<le> 90) \<or> (192 \<le> n \<and> n \<le> 222 \<and> n \<noteq> 215)
         then char_of (n + 32) else c)"

definition lower :: "string \<Rightarrow> string" where
  "lower s = map lower_char s"

text \<open>
  \<open>str.upper\<close> and \<open>str.title\<close> are applied by the source to source names and to the
  skill vocabulary only, which are ASCII; the model is exact on ASCII input.
\<close>

definition is_ascii_lower :: "char \<Rightarrow> bool" where
  "is_ascii_lower c = (let n = (of_char c :: nat) in 97 \<le> n \<and> n \<le> 122)"

definition is_ascii_upper :: "char \<Rightarrow> bool" where
  "is_ascii_upper c = (let n = (of_char c :: nat) in 65 \<le> n \<and> n \<le> 90)"

definition upper_char :: "char \<Rightarrow> char" where
  "upper_char c = (if is_ascii_lower c then char_of ((of_char c :: nat) - 32) else c)"

definition upper :: "string \<Rightarrow> string" where
  "upper s = map upper_char s"

text \<open>
  \<open>str.title\<close>: a cased character is upper-cased when the previous character is not
  cased and lower-cased otherwise; the flag \<open>prev_cased\<close> is the previous character's.
\<close>

fun title_from :: "bool \<Rightarrow> string \<Rightarrow> string" where
  "title_from prev_cased [] = []"
| "title_from prev_cased (c # cs) =
     (if is_ascii_lower c \<or> is_ascii_upper c
      then (if prev_cased then lower_char c else upper_char c) # title_from True cs
      else c # title_from False cs)"

definition title_str :: "string \<Rightarrow> string" where
  "title_str s = title_from False s"

text \<open>\<open>sub in s\<close> on strings: \<open>sub\<close> occurs in \<open>s\<close> as a contiguous run.\<close>

fun starts_with :: "string \<Rightarrow> string \<Rightarrow> bool" where
  "starts_with s [] = True"
| "starts_with [] (p # ps) = False"
| "starts_with (c # cs) (p # ps) = (c = p \<and> starts_with cs ps)"

fun str_in :: "string \<Rightarrow> string \<Rightarrow> bool" where
  "str_in sub [] = (sub = [])"
| "str_in sub (c # cs) = (starts_with (c # cs) sub \<or> str_in sub cs)"

text \<open>
  \<open>s.split(sep)\<close> with a one-character separator: one token per separator plus one,
  empty tokens kept. \<open>cur\<close> holds the current token reversed.
\<close>

fun split_from :: "char \<Rightarrow> string \<Rightarrow> string \<Rightarrow> string list" where
  "split_from sep cur [] = [rev cur]"
| "split_from sep cur (c # cs) =
     (if c = sep then rev cur # split_from sep [] cs else split_from sep (c # cur) cs)"

definition split :: "char \<Rightarrow> string \<Rightarrow> string list" where
  "split sep s = split_from sep [] s"

section \<open>Job listings\<close>

text \<open>
  The leading fields \<open>title\<close>, \<open>company\<close>, \<open>location\<close> are shared by the dataclass
  \<open>JobListing\<close> (legal\_job\_scraper.py) and by the job dictionaries of
  advanced\_job\_scraper.py, whose remaining keys are the record's extension.
\<close>

record job_fields =
  title :: string
  company :: string
  location :: string

record JobListing = job_fields +
  salary :: "string option"
  description :: string
  requirements :: "string list"
  job_type :: string
  experience_level :: string
  posted_date :: string
  application_url :: string
  source :: string
  job_id :: string

section \<open>Deduplicator\<close>

text \<open>The composite key \<open>f"{title.lower()}_{company.lower()}_{location.lower()}"\<close>.\<close>

definition job_identifier :: "'a job_fields_scheme \<Rightarrow> string" where
  "job_identifier job = lower (title job) @ ''_'' @ lower (company job) @ ''_'' @ lower (location job)"

subsection \<open>\<open>LegalJobScraper.remove_duplicates\<close>: exact keys\<close>

text \<open>The loop state is the pair \<open>(seen, unique_jobs)\<close>.\<close>

fun remove_duplicates_loop ::
  "'a job_fields_scheme list \<Rightarrow> string set \<times> 'a job_fields_scheme list
     \<Rightarrow> string set \<times> 'a job_fields_scheme list" where
  "remove_duplicates_loop [] (seen, unique_jobs) = (seen, unique_jobs)"
| "remove_duplicates_loop (job # jobs) (seen, unique_jobs) =
     (if job_identifier job \<notin> seen
      then remove_duplicates_loop jobs (insert (job_identifier job) seen, unique_jobs @ [job])
      else remove_duplicates_loop jobs (seen, unique_jobs))"

definition remove_duplicates :: "'a job_fields_scheme list \<Rightarrow> 'a job_fields_scheme list" where
  "remove_duplicates jobs = snd (remove_duplicates_loop jobs ({}, []))"

subsection \<open>\<open>AdvancedJobScraper.remove_duplicates_advanced\<close>: Jaccard similarity\<close>

text \<open>
  \<open>similarity_score\<close> divides two list lengths; the quotient of two small naturals and
  its comparison with the literal \<open>0.85\<close> are modelled exactly, in the rationals.
\<close>

definition similarity_score :: "string \<Rightarrow> string \<Rightarrow> rat" where
  "similarity_score str1 str2 =
     (let set1 = set (split CHR ''_'' str1);
          set2 = set (split CHR ''_'' str2);
          intersection = card (set1 \<inter> set2);
          union = card (set1 \<union> set2)
      in if union > 0 then of_nat intersection / of_nat union else 0)"

definition is_duplicate :: "string \<Rightarrow> string set \<Rightarrow> bool" where
  "is_duplicate ident seen = (\<exists>seen_id \<in> seen. similarity_score ident seen_id > 85 / 100)"

fun remove_duplicates_advanced_loop ::
  "'a job_fields_scheme list \<Rightarrow> string set \<times> 'a job_fields_scheme list
     \<Rightarrow> string set \<times> 'a job_fields_scheme list" where
  "remove_duplicates_advanced_loop [] (seen, unique_jobs) = (seen, unique_jobs)"
| "remove_duplicates_advanced_loop (job # jobs) (seen, unique_jobs) =
     (if \<not> is_duplicate (job_identifier job) seen
      then remove_duplicates_advanced_loop jobs
             (insert (job_identifier job) seen, unique_jobs @ [job])
      else remove_duplicates_advanced_loop jobs (seen, unique_jobs))"

definition remove_duplicates_advanced ::
  "'a job_fields_scheme list \<Rightarrow> 'a job_fields_scheme list" where
  "remove_duplicates_advanced jobs = snd (remove_duplicates_advanced_loop jobs ({}, []))"

section \<open>Requirement tags\<close>

definition tech_skills :: "string list" where
  "tech_skills =
     [''python'', ''javascript'', ''java'', ''react'', ''node.js'', ''angular'', ''vue'',
      ''typescript'', ''html'', ''css'', ''sql'', ''mongodb'', ''postgresql'', ''mysql'',
      ''aws'', ''azure'', ''docker'', ''kubernetes'', ''git'', ''rest api'', ''graphql'',
      ''machine learning'', ''ai'', ''data science'', ''tensorflow'', ''pytorch'']"

definition skills_database :: "string list" where
  "skills_database =
     [''python'', ''javascript'', ''java'', ''react'', ''node.js'', ''angular'', ''vue.js'',
      ''typescript'', ''html'', ''css'', ''sql'', ''mongodb'', ''postgresql'', ''mysql'',
      ''aws'', ''azure'', ''gcp'', ''docker'', ''kubernetes'', ''git'', ''rest api'', ''graphql'',
      ''machine learning'', ''ai'', ''data science'', ''tensorflow'', ''pytorch'', ''pandas'',
      ''spring boot'', ''django'', ''flask'', ''express.js'', ''laravel'', ''symfony'',
      ''redis'', ''elasticsearch'', ''jenkins'', ''ci/cd'', ''agile'', ''scrum'']"

text \<open>
  The loop \<open>for skill in vocabulary: if skill in text_lower: found.append(skill.title())\<close>,
  shared by \<open>extract_requirements\<close> and \<open>extract_skills_from_text\<close>; \<open>found\<close> is the
  list built so far.
\<close>

fun scan_skills :: "string \<Rightarrow> string list \<Rightarrow> string list \<Rightarrow> string list" where
  "scan_skills text_lower [] found = found"
| "scan_skills text_lower (skill # skills) found =
     (if str_in skill text_lower
      then scan_skills text_lower skills (found @ [title_str skill])
      else scan_skills text_lower skills found)"

definition extract_requirements :: "string \<Rightarrow> string list" where
  "extract_requirements descr = take 10 (scan_skills (lower descr) tech_skills [])"

definition extract_skills_from_text :: "string \<Rightarrow> string list" where
  "extract_skills_from_text txt = take 15 (scan_skills (lower txt) skills_database [])"

section \<open>Identity rotator (\<open>AdvancedJobScraper\<close>)\<close>

datatype py_exception = KeyError string | IndexError | OtherException string

record proxy =
  http :: string
  https :: string

record AdvancedScrapingConfig =
  use_proxies :: bool
  use_cloudflare_bypass :: bool
  use_headless_browser :: bool
  random_delays :: bool
  user_agent_rotation :: bool
  captcha_solving :: bool
  respect_robots :: bool

text \<open>
  The three instance fields \<open>get_next_proxy\<close> reads and writes. An entry \<open>None\<close> of the
  pool is the direct connection. Both counters start at 0 and only grow or are reduced
  modulo the pool's length, so they are naturals.
\<close>

record rotator =
  proxies :: "proxy option list"
  current_proxy_index :: nat
  request_count :: nat

text \<open>
  \<open>load_proxy_list\<close>: \<open>env_proxies\<close> is the decoded \<open>SCRAPING_PROXIES\<close> variable
  (\<open>None\<close> when it is unset or does not decode), followed by the two built-in entries.
\<close>

definition free_proxies :: "string list" where
  "free_proxies = [''http://proxy1.example.com:8080'', ''http://proxy2.example.com:8080'']"

definition load_proxy_list :: "string list option \<Rightarrow> proxy option list" where
  "load_proxy_list env_proxies =
     (let from_env = (case env_proxies of None \<Rightarrow> []
                      | Some proxy_list \<Rightarrow> map (\<lambda>p. Some \<lparr>http = p, https = p\<rparr>) proxy_list);
          pool = from_env @ map (\<lambda>p. Some \<lparr>http = p, https = p\<rparr>) free_proxies
      in if pool = [] then [None] else pool)"

definition init_rotator :: "string list option \<Rightarrow> rotator" where
  "init_rotator env_proxies =
     \<lparr>proxies = load_proxy_list env_proxies, current_proxy_index = 0, request_count = 0\<rparr>"

text \<open>
  \<open>get_next_proxy\<close> returns the proxy (or \<open>None\<close>) and the updated fields; indexing the
  pool out of range raises \<open>IndexError\<close> after the fields were updated.
\<close>

definition get_next_proxy ::
  "AdvancedScrapingConfig \<Rightarrow> rotator \<Rightarrow> (py_exception + proxy option) \<times> rotator" where
  "get_next_proxy config st =
     (if \<not> use_proxies config \<or> proxies st = [] then (Inr None, st)
      else
        (let st1 = (if request_count st mod 5 = 0
                    then st\<lparr>current_proxy_index :=
                              (current_proxy_index st + 1) mod length (proxies st)\<rparr>
                    else st);
             st2 = st1\<lparr>request_count := request_count st1 + 1\<rparr>
         in (if current_proxy_index st2 < length (proxies st2)
             then Inr (proxies st2 ! current_proxy_index st2)
             else Inl IndexError, st2)))"

text \<open>The fields after \<open>n\<close> successive calls, and the value the call after them returns.\<close>

fun after_requests :: "AdvancedScrapingConfig \<Rightarrow> nat \<Rightarrow> rotator \<Rightarrow> rotator" where
  "after_requests config 0 st = st"
| "after_requests config (Suc n) st = after_requests config n (snd (get_next_proxy config st))"

definition nth_request ::
  "AdvancedScrapingConfig \<Rightarrow> nat \<Rightarrow> rotator \<Rightarrow> py_exception + proxy option" where
  "nth_request config n st = fst (get_next_proxy config (after_requests config n st))"

section \<open>Legal job scraper (\<open>LegalJobScraper\<close>)\<close>

record ScrapingConfig =
  delay_min :: rat
  delay_max :: rat
  max_concurrent :: int
  timeout :: int
  retry_attempts :: int
  respect_robots :: bool
  user_agent_rotation :: bool

text \<open>
  One entry of \<open>job_sources\<close>. The keys \<open>api_url\<close> and \<open>requires_api_key\<close> are absent
  from some entries, and \<open>rate_limit\<close> is read with a default, so the three are optional.
  \<open>job_sources\<close> itself is an association list in the dictionary's insertion order.
\<close>

record source_config =
  base_url :: string
  search_endpoint :: string
  api_available :: bool
  api_url :: "string option"
  requires_api_key :: "bool option"
  rate_limit :: "rat option"
  legal_status :: string

type_synonym job_sources = "(string \<times> source_config) list"

definition legal_job_sources :: job_sources where
  "legal_job_sources =
    [(''indeed'', \<lparr>base_url = ''https://www.indeed.com'', search_endpoint = ''/jobs'',
        api_available = True, api_url = Some ''https://apis.indeed.com/ads/apisearch'',
        requires_api_key = Some True, rate_limit = Some 2, legal_status = ''API_PREFERRED''\<rparr>),
     (''linkedin'', \<lparr>base_url = ''https://www.linkedin.com'', search_endpoint = ''/jobs/search'',
        api_available = True, api_url = Some ''https://api.linkedin.com/v2/jobSearch'',
        requires_api_key = Some True, rate_limit = Some 1, legal_status = ''API_ONLY''\<rparr>),
     (''naukri'', \<lparr>base_url = ''https://www.naukri.com'', search_endpoint = ''/jobs'',
        api_available = True, api_url = Some ''https://api.naukri.com/jobs'',
        requires_api_key = Some True, rate_limit = Some (3 / 2),
        legal_status = ''API_PREFERRED''\<rparr>),
     (''glassdoor'', \<lparr>base_url = ''https://www.glassdoor.com'',
        search_endpoint = ''/Job/jobs.htm'',
        api_available = True, api_url = Some ''https://api.glassdoor.com/api/jobs'',
        requires_api_key = Some True, rate_limit = Some 2, legal_status = ''API_PREFERRED''\<rparr>),
     (''monster'', \<lparr>base_url = ''https://www.monster.com'', search_endpoint = ''/jobs/search'',
        api_available = False, api_url = None,
        requires_api_key = None, rate_limit = Some 3, legal_status = ''SCRAPING_ALLOWED''\<rparr>),
     (''dice'', \<lparr>base_url = ''https://www.dice.com'', search_endpoint = ''/jobs'',
        api_available = False, api_url = None,
        requires_api_key = None, rate_limit = Some (5 / 2),
        legal_status = ''SCRAPING_ALLOWED''\<rparr>),
     (''stackoverflow_jobs'', \<lparr>base_url = ''https://stackoverflow.com'',
        search_endpoint = ''/jobs'',
        api_available = True, api_url = Some ''https://api.stackexchange.com/2.3/jobs'',
        requires_api_key = Some False, rate_limit = Some 1, legal_status = ''API_PREFERRED''\<rparr>),
     (''github_jobs'', \<lparr>base_url = ''https://jobs.github.com'', search_endpoint = ''/positions'',
        api_available = True, api_url = Some ''https://jobs.github.com/positions.json'',
        requires_api_key = Some False, rate_limit = Some 1, legal_status = ''API_AVAILABLE''\<rparr>),
     (''remoteok'', \<lparr>base_url = ''https://remoteok.io'', search_endpoint = ''/remote-jobs'',
        api_available = True, api_url = Some ''https://remoteok.io/api'',
        requires_api_key = Some False, rate_limit = Some 2, legal_status = ''API_AVAILABLE''\<rparr>),
     (''weworkremotely'', \<lparr>base_url = ''https://weworkremotely.com'',
        search_endpoint = ''/remote-jobs'',
        api_available = False, api_url = None,
        requires_api_key = None, rate_limit = Some 3, legal_status = ''SCRAPING_ALLOWED''\<rparr>)]"

type_synonym params = "(string \<times> string) list"

definition default_search_params :: params where
  "default_search_params =
     [(''keywords'', ''software developer''), (''location'', ''India''),
      (''experience_level'', ''mid''), (''job_type'', ''full-time'')]"

text \<open>
  A parsed robots.txt, as the code uses it: the answer of \<open>can_fetch('*', url)\<close>.
\<close>

type_synonym robots_parser = "string \<Rightarrow> bool"

text \<open>
  What the scraper takes from outside, fixed for one run: the process environment,
  \<open>urllib\<close>, the random source (\<open>random_random env i\<close> is the \<open>i\<close>-th value of
  \<open>random.random()\<close>) and the six per-site fetch-and-parse functions, whose bodies are
  network and HTML code. Each of those returns its listings or raises; the ones of the
  source catch what they raise, which is the case where they always return.
\<close>

record env =
  getenv :: "string \<Rightarrow> string option"
  urljoin :: "string \<Rightarrow> string \<Rightarrow> string"
  robots_read :: "string \<Rightarrow> py_exception + robots_parser"
  random_random :: "nat \<Rightarrow> rat"
  scrape_github_jobs_api :: "params \<Rightarrow> py_exception + JobListing list"
  scrape_remoteok_api :: "params \<Rightarrow> py_exception + JobListing list"
  scrape_stackoverflow_api :: "params \<Rightarrow> py_exception + JobListing list"
  scrape_monster_web :: "params \<Rightarrow> py_exception + JobListing list"
  scrape_dice_web :: "params \<Rightarrow> py_exception + JobListing list"
  scrape_weworkremotely_web :: "params \<Rightarrow> py_exception + JobListing list"

text \<open>
  What the run does to the world, in order: a retrieval of a robots.txt, the entry into
  \<open>scrape_via_api\<close> or \<open>scrape_via_web\<close> for a source, a sleep, an error written by
  \<open>logger.error\<close> for a source.
\<close>

datatype event =
    Robots_read string
  | Api_path string
  | Web_path string
  | Sleep string rat
  | Error_logged string py_exception

record scraper =
  robots_cache :: "string \<rightharpoonup> robots_parser"
  rng :: nat
  events :: "event list"

definition emit :: "event \<Rightarrow> scraper \<Rightarrow> scraper" where
  "emit ev st = st\<lparr>events := events st @ [ev]\<rparr>"

definition check_robots_txt ::
  "ScrapingConfig \<Rightarrow> env \<Rightarrow> string \<Rightarrow> string \<Rightarrow> scraper \<Rightarrow> bool \<times> scraper" where
  "check_robots_txt config env base endpoint st =
     (if \<not> ScrapingConfig.respect_robots config then (True, st)
      else
        (case robots_cache st base of
           Some rp \<Rightarrow> (rp (urljoin env base endpoint), st)
         | None \<Rightarrow>
             (let robots_url = urljoin env base ''/robots.txt'';
                  st1 = emit (Robots_read robots_url) st
              in case robots_read env robots_url of
                   Inl e \<Rightarrow> (True, st1)
                 | Inr rp \<Rightarrow>
                     (rp (urljoin env base endpoint),
                      st1\<lparr>robots_cache := (robots_cache st1)(base \<mapsto> rp)\<rparr>))))"

text \<open>\<open>random.uniform(a, b)\<close> is \<open>a + (b - a) * random.random()\<close>.\<close>

definition uniform :: "rat \<Rightarrow> rat \<Rightarrow> rat \<Rightarrow> rat" where
  "uniform r a b = a + (b - a) * r"

text \<open>
  The first two lines of \<open>respectful_delay\<close>: the source's \<open>rate_limit\<close>, and the
  configuration's \<open>delay_min\<close> when the source or the key is missing.
\<close>

definition source_min_delay :: "ScrapingConfig \<Rightarrow> job_sources \<Rightarrow> string \<Rightarrow> rat" where
  "source_min_delay config srcs name =
     (case map_of srcs name of
        None \<Rightarrow> delay_min config
      | Some sc \<Rightarrow> (case rate_limit sc of None \<Rightarrow> delay_min config | Some r \<Rightarrow> r))"

definition respectful_delay ::
  "ScrapingConfig \<Rightarrow> env \<Rightarrow> job_sources \<Rightarrow> string \<Rightarrow> scraper \<Rightarrow> scraper" where
  "respectful_delay config env srcs name st =
     (let min_delay = source_min_delay config srcs name;
          max_delay = min_delay + 1;
          delay = uniform (random_random env (rng st)) min_delay max_delay
      in emit (Sleep name delay) (st\<lparr>rng := rng st + 1\<rparr>))"

definition scrape_via_api ::
  "env \<Rightarrow> job_sources \<Rightarrow> string \<Rightarrow> params \<Rightarrow> scraper
     \<Rightarrow> (py_exception + JobListing list) \<times> scraper" where
  "scrape_via_api env srcs name ps st =
     (let st1 = emit (Api_path name) st
      in case map_of srcs name of
           None \<Rightarrow> (Inl (KeyError name), st1)
         | Some sc \<Rightarrow>
             (if name = ''github_jobs'' then (scrape_github_jobs_api env ps, st1)
              else if name = ''remoteok'' then (scrape_remoteok_api env ps, st1)
              else if name = ''stackoverflow_jobs'' then (scrape_stackoverflow_api env ps, st1)
              else (Inr [], st1)))"

definition scrape_via_web ::
  "ScrapingConfig \<Rightarrow> env \<Rightarrow> job_sources \<Rightarrow> string \<Rightarrow> params \<Rightarrow> scraper
     \<Rightarrow> (py_exception + JobListing list) \<times> scraper" where
  "scrape_via_web config env srcs name ps st =
     (let st1 = emit (Web_path name) st
      in case map_of srcs name of
           None \<Rightarrow> (Inl (KeyError name), st1)
         | Some sc \<Rightarrow>
             (case check_robots_txt config env (base_url sc) (search_endpoint sc) st1 of
                (allowed, st2) \<Rightarrow>
                  if \<not> allowed then (Inr [], st2)
                  else
                    (case (if name = ''monster'' then scrape_monster_web env ps
                           else if name = ''dice'' then scrape_dice_web env ps
                           else if name = ''weworkremotely'' then scrape_weworkremotely_web env ps
                           else Inr []) of
                       Inr jobs \<Rightarrow> (Inr jobs, st2)
                     | Inl e \<Rightarrow> (Inr [], emit (Error_logged name e) st2))))"

text \<open>\<open>os.getenv(var)\<close> used as a condition: set and not empty.\<close>

definition has_api_key :: "env \<Rightarrow> string \<Rightarrow> bool" where
  "has_api_key env name =
     (case getenv env (upper name @ ''_API_KEY'') of None \<Rightarrow> False | Some v \<Rightarrow> v \<noteq> [])"

definition scrape_via_api_with_fallback ::
  "ScrapingConfig \<Rightarrow> env \<Rightarrow> job_sources \<Rightarrow> string \<Rightarrow> params \<Rightarrow> scraper
     \<Rightarrow> (py_exception + JobListing list) \<times> scraper" where
  "scrape_via_api_with_fallback config env srcs name ps st =
     (if has_api_key env name then scrape_via_api env srcs name ps st
      else scrape_via_web config env srcs name ps st)"

text \<open>
  One iteration of the loop of \<open>scrape_jobs_comprehensive\<close>. \<open>try_source\<close> is the
  branch on \<open>legal_status\<close> inside the \<open>try\<close>: the scraping call made, or \<open>None\<close> where
  the branch is \<open>continue\<close>. \<open>process_source\<close> is the whole iteration on the pair
  \<open>(all_jobs, state)\<close>, with the \<open>except Exception\<close> handler.
\<close>

definition try_source ::
  "ScrapingConfig \<Rightarrow> env \<Rightarrow> job_sources \<Rightarrow> params \<Rightarrow> string \<times> source_config
     \<Rightarrow> scraper \<Rightarrow> ((py_exception + JobListing list) \<times> scraper) option" where
  "try_source config env srcs ps entry st =
     (case entry of (name, sc) \<Rightarrow>
        if legal_status sc = ''API_AVAILABLE''
          then Some (scrape_via_api env srcs name ps st)
        else if legal_status sc = ''API_PREFERRED''
          then Some (scrape_via_api_with_fallback config env srcs name ps st)
        else if legal_status sc = ''SCRAPING_ALLOWED''
          then Some (scrape_via_web config env srcs name ps st)
        else if legal_status sc = ''API_ONLY'' then None
        else None)"

definition process_source ::
  "ScrapingConfig \<Rightarrow> env \<Rightarrow> job_sources \<Rightarrow> params \<Rightarrow> string \<times> source_config
     \<Rightarrow> JobListing list \<times> scraper \<Rightarrow> JobListing list \<times> scraper" where
  "process_source config env srcs ps entry acc =
     (case acc of (all_jobs, st) \<Rightarrow>
        (case try_source config env srcs ps entry st of
           None \<Rightarrow> (all_jobs, st)
         | Some (Inr jobs, st1) \<Rightarrow>
             (all_jobs @ jobs, respectful_delay config env srcs (fst entry) st1)
         | Some (Inl e, st1) \<Rightarrow> (all_jobs, emit (Error_logged (fst entry) e) st1)))"

fun process_sources ::
  "ScrapingConfig \<Rightarrow> env \<Rightarrow> job_sources \<Rightarrow> params \<Rightarrow> (string \<times> source_config) list
     \<Rightarrow> JobListing list \<times> scraper \<Rightarrow> JobListing list \<times> scraper" where
  "process_sources config env srcs ps [] acc = acc"
| "process_sources config env srcs ps (entry # rest) acc =
     process_sources config env srcs ps rest (process_source config env srcs ps entry acc)"

text \<open>
  \<open>search_params or {...}\<close>: an absent or empty dictionary is replaced by the default.
\<close>

definition effective_params :: "params option \<Rightarrow> params" where
  "effective_params search_params =
     (case search_params of
        None \<Rightarrow> default_search_params
      | Some p \<Rightarrow> if p = [] then default_search_params else p)"

definition scrape_jobs_comprehensive ::
  "ScrapingConfig \<Rightarrow> env \<Rightarrow> job_sources \<Rightarrow> params option \<Rightarrow> scraper
     \<Rightarrow> JobListing list \<times> scraper" where
  "scrape_jobs_comprehensive config env srcs search_params st =
     (let ps = effective_params search_params;
          res = process_sources config env srcs ps srcs ([], st)
      in (remove_duplicates (fst res), snd res))"

text \<open>The entries into a scraping path among a run's events, in order.\<close>

fun is_path :: "event \<Rightarrow> bool" where
  "is_path (Api_path name) = True"
| "is_path (Web_path name) = True"
| "is_path ev = False"

definition paths_taken :: "scraper \<Rightarrow> event list" where
  "paths_taken st = filter is_path (events st)"

section \<open>Sample inputs\<close>

definition job_a :: job_fields where
  "job_a = \<lparr>title = ''Senior Python Developer'', company = ''Acme Corp'', location = ''Remote''\<rparr>"

definition job_b :: job_fields where
  "job_b =
     \<lparr>title = ''Senior Python Developer'', company = ''Acme Corp'', location = ''Remote USA''\<rparr>"

definition listing :: "string \<Rightarrow> string \<Rightarrow> string \<Rightarrow> string \<Rightarrow> JobListing" where
  "listing t c l s =
     \<lparr>title = t, company = c, location = l, salary = Some ''Not specified'', description = [],
      requirements = [], job_type = ''full-time'', experience_level = ''not specified'',
      posted_date = ''2024-01-01'', application_url = [], source = s, job_id = ''0''\<rparr>"

text \<open>The dataclass defaults, and the same with a global minimum delay of five seconds.\<close>

definition default_config :: ScrapingConfig where
  "default_config =
     \<lparr>delay_min = 1, delay_max = 3, max_concurrent = 5, timeout = 30, retry_attempts = 3,
      ScrapingConfig.respect_robots = True, ScrapingConfig.user_agent_rotation = True\<rparr>"

definition slow_config :: ScrapingConfig where
  "slow_config = default_config\<lparr>delay_min := 5\<rparr>"

definition proxy_config :: "bool \<Rightarrow> AdvancedScrapingConfig" where
  "proxy_config on =
     \<lparr>use_proxies = on, use_cloudflare_bypass = True, use_headless_browser = False,
      random_delays = True, AdvancedScrapingConfig.user_agent_rotation = True,
      captcha_solving = False, AdvancedScrapingConfig.respect_robots = True\<rparr>"

text \<open>The fields set by \<open>LegalJobScraper.__init__\<close>.\<close>

definition init_scraper :: scraper where
  "init_scraper = \<lparr>robots_cache = Map.empty, rng = 0, events = []\<rparr>"

text \<open>
  A world with no API key set, where no robots.txt can be retrieved, every random draw
  is 0, the GitHub and Dice fetches raise and the other fetches return one listing or
  none; and the same world with a key set for LinkedIn.
\<close>

definition env_no_keys :: env where
  "env_no_keys =
     \<lparr>getenv = (\<lambda>v. None),
      urljoin = (\<lambda>base path. base @ path),
      robots_read = (\<lambda>url. Inl (OtherException ''unreachable'')),
      random_random = (\<lambda>i. 0),
      scrape_github_jobs_api = (\<lambda>ps. Inl (OtherException ''boom'')),
      scrape_remoteok_api = (\<lambda>ps. Inr [listing ''Backend Engineer'' ''Initech'' ''Remote'' ''remoteok'']),
      scrape_stackoverflow_api = (\<lambda>ps. Inr []),
      scrape_monster_web = (\<lambda>ps. Inr [listing ''Data Analyst'' ''Globex'' ''Pune'' ''monster'']),
      scrape_dice_web = (\<lambda>ps. Inl (OtherException ''timeout'')),
      scrape_weworkremotely_web = (\<lambda>ps. Inr [])\<rparr>"

definition env_linkedin_key :: env where
  "env_linkedin_key =
     env_no_keys\<lparr>getenv := (\<lambda>v. if v = ''LINKEDIN_API_KEY'' then Some ''secret'' else None)\<rparr>"

section \<open>Properties of the deduplicator\<close>

text \<open>
  Both loops only append to \<open>unique_jobs\<close>, so a run from any \<open>unique_jobs\<close> is that
  list followed by the run from the empty one.
\<close>

lemma remove_duplicates_loop_acc:
  "remove_duplicates_loop jobs (seen, unique_jobs) =
     (fst (remove_duplicates_loop jobs (seen, [])),
      unique_jobs @ snd (remove_duplicates_loop jobs (seen, [])))"
proof (induction jobs arbitrary: seen unique_jobs)
  case Nil
  show ?case by simp
next
  case (Cons job jobs)
  show ?case
  proof (cases "job_identifier job \<in> seen")
    case True
    then show ?thesis using Cons.IH [of seen unique_jobs] by simp
  next
    case False
    then show ?thesis
      using Cons.IH [of "insert (job_identifier job) seen" "unique_jobs @ [job]"]
        Cons.IH [of "insert (job_identifier job) seen" "[job]"]
      by simp
  qed
qed

lemma kept_Cons:
  "snd (remove_duplicates_loop (job # jobs) (seen, [])) =
     (if job_identifier job \<in> seen then snd (remove_duplicates_loop jobs (seen, []))
      else job # snd (remove_duplicates_loop jobs (insert (job_identifier job) seen, [])))"
  using remove_duplicates_loop_acc [of jobs "insert (job_identifier job) seen" "[job]"]
  by simp

lemma kept_idem:
  "snd (remove_duplicates_loop (snd (remove_duplicates_loop jobs (seen, []))) (seen, [])) =
     snd (remove_duplicates_loop jobs (seen, []))"
proof (induction jobs arbitrary: seen)
  case Nil
  show ?case by simp
next
  case (Cons job jobs)
  show ?case
    by (simp only: kept_Cons Cons.IH split: if_split) simp
qed

lemma advanced_loop_acc:
  "remove_duplicates_advanced_loop jobs (seen, unique_jobs) =
     (fst (remove_duplicates_advanced_loop jobs (seen, [])),
      unique_jobs @ snd (remove_duplicates_advanced_loop jobs (seen, [])))"
proof (induction jobs arbitrary: seen unique_jobs)
  case Nil
  show ?case by simp
next
  case (Cons job jobs)
  show ?case
  proof (cases "is_duplicate (job_identifier job) seen")
    case True
    then show ?thesis using Cons.IH [of seen unique_jobs] by simp
  next
    case False
    then show ?thesis
      using Cons.IH [of "insert (job_identifier job) seen" "unique_jobs @ [job]"]
        Cons.IH [of "insert (job_identifier job) seen" "[job]"]
      by simp
  qed
qed

lemma advanced_kept_Cons:
  "snd (remove_duplicates_advanced_loop (job # jobs) (seen, [])) =
     (if is_duplicate (job_identifier job) seen
      then snd (remove_duplicates_advanced_loop jobs (seen, []))
      else job # snd (remove_duplicates_advanced_loop jobs (insert (job_identifier job) seen, [])))"
  using advanced_loop_acc [of jobs "insert (job_identifier job) seen" "[job]"]
  by simp

lemma advanced_kept_idem:
  "snd (remove_duplicates_advanced_loop
          (snd (remove_duplicates_advanced_loop jobs (seen, []))) (seen, [])) =
     snd (remove_duplicates_advanced_loop jobs (seen, []))"
proof (induction jobs arbitrary: seen)
  case Nil
  show ?case by simp
next
  case (Cons job jobs)
  show ?case
    by (simp only: advanced_kept_Cons Cons.IH split: if_split) simp
qed

text \<open>
  C3. The deduplicator is idempotent: for every list of listings \<open>L\<close>, removing
  duplicates from the output of duplicate removal returns that output unchanged, for the
  exact-key variant \<open>remove_duplicates\<close> and for the Jaccard-similarity variant
  \<open>remove_duplicates_advanced\<close>.
\<close>

theorem dedup_idempotent:
  "remove_duplicates (remove_duplicates L) = remove_duplicates L \<and>
   remove_duplicates_advanced (remove_duplicates_advanced L) = remove_duplicates_advanced L"
  unfolding remove_duplicates_def remove_duplicates_advanced_def
  by (simp only: kept_idem advanced_kept_idem)

theorem dedup_idempotent_witness:
  "remove_duplicates (remove_duplicates [job_a, job_b, job_a]) = [job_a, job_b] \<and>
   remove_duplicates_advanced (remove_duplicates_advanced [job_a, job_b, job_a]) = [job_a, job_b]"
proof -
  have 1: "remove_duplicates [job_a, job_b, job_a] = [job_a, job_b]" by code_simp
  have 2: "remove_duplicates_advanced [job_a, job_b, job_a] = [job_a, job_b]" by code_simp
  show ?thesis using dedup_idempotent [of "[job_a, job_b, job_a]"] by (simp only: 1 2)
qed

lemma similarity_sample:
  "similarity_score ''senior python developer_acme corp_remote''
     ''senior python developer_acme corp_remote usa'' = 1 / 2"
  "similarity_score ''senior python developer_acme corp_remote usa''
     ''senior python developer_acme corp_remote'' = 1 / 2"
  by code_simp+

text \<open>
  C1, as stated, fails. The two listings below have the composite keys
  \<open>senior python developer_acme corp_remote\<close> and
  \<open>senior python developer_acme corp_remote usa\<close>, and duplicate removal retains both.
\<close>

theorem dedup_threshold_counterexample:
  "job_identifier job_a = ''senior python developer_acme corp_remote'' \<and>
   job_identifier job_b = ''senior python developer_acme corp_remote usa'' \<and>
   remove_duplicates_advanced [job_a, job_b] = [job_a, job_b]"
  by code_simp

text \<open>
  C1, amended. For any two listings with these two composite keys, the token-set Jaccard
  similarity of the keys over \<open>_\<close>-separated tokens is 2/4 = 0.5 (the location tokens
  \<open>remote\<close> and \<open>remote usa\<close> differ), which does not exceed 0.85; so the input
  list made of the two listings, in either order, is returned unchanged: both are retained.
\<close>

theorem dedup_threshold_amended:
  assumes "job_identifier j1 = ''senior python developer_acme corp_remote''"
    and "job_identifier j2 = ''senior python developer_acme corp_remote usa''"
  shows "similarity_score (job_identifier j1) (job_identifier j2) = 1 / 2 \<and>
         remove_duplicates_advanced [j1, j2] = [j1, j2] \<and>
         remove_duplicates_advanced [j2, j1] = [j2, j1]"
  using assms
  by (simp add: remove_duplicates_advanced_def is_duplicate_def similarity_sample)

theorem dedup_threshold_amended_witness:
  "similarity_score (job_identifier job_a) (job_identifier job_b) = 1 / 2 \<and>
   remove_duplicates_advanced [job_a, job_b] = [job_a, job_b] \<and>
   remove_duplicates_advanced [job_b, job_a] = [job_b, job_a]"
proof -
  have 1: "job_identifier job_a = ''senior python developer_acme corp_remote''" by code_simp
  have 2: "job_identifier job_b = ''senior python developer_acme corp_remote usa''" by code_simp
  show ?thesis by (rule dedup_threshold_amended [OF 1 2])
qed


section \<open>Properties of requirement-tag extraction\<close>

text \<open>\<open>str_in\<close> is the contiguous-sublist relation of the library.\<close>

lemma starts_with_iff: "starts_with s p \<longleftrightarrow> prefix p s"
  by (induction s p rule: starts_with.induct) auto

lemma str_in_iff: "str_in sub s \<longleftrightarrow> sublist sub s"
proof (induction s)
  case Nil
  show ?case by auto
next
  case (Cons c cs)
  show ?case by (simp add: Cons.IH starts_with_iff sublist_Cons_right)
qed

lemma scan_skills_eq:
  "scan_skills text_lower skills found =
     found @ map title_str (filter (\<lambda>skill. sublist skill text_lower) skills)"
  by (induction skills arbitrary: found) (simp_all add: str_in_iff)

text \<open>
  C8, amended. For every description string, requirement-tag extraction returns the
  title-cased forms of the vocabulary skills that occur (as substrings) in the lower-cased
  text, listed in the order of the vocabulary, and only the first 10 of them
  (\<open>extract_requirements\<close>) or the first 15 (\<open>extract_skills_from_text\<close>).
\<close>

theorem requirement_tags_vocabulary_order:
  "extract_requirements d =
     map title_str (take 10 (filter (\<lambda>skill. sublist skill (lower d)) tech_skills)) \<and>
   extract_skills_from_text d =
     map title_str (take 15 (filter (\<lambda>skill. sublist skill (lower d)) skills_database))"
  by (simp add: extract_requirements_def extract_skills_from_text_def scan_skills_eq take_map)

theorem requirement_tags_vocabulary_order_witness:
  "map title_str (take 10 (filter (\<lambda>skill. sublist skill (lower ''React, Node.js and AWS''))
      tech_skills)) = [''React'', ''Node.Js'', ''Aws''] \<and>
   map title_str (take 15 (filter (\<lambda>skill. sublist skill (lower ''React, Node.js and AWS''))
      skills_database)) = [''React'', ''Node.Js'', ''Aws'']"
proof -
  have 1: "extract_requirements ''React, Node.js and AWS'' = [''React'', ''Node.Js'', ''Aws'']"
    by code_simp
  have 2: "extract_skills_from_text ''React, Node.js and AWS'' = [''React'', ''Node.Js'', ''Aws'']"
    by code_simp
  show ?thesis
    using requirement_tags_vocabulary_order [of "''React, Node.js and AWS''", unfolded 1 2]
    by metis
qed

text \<open>
  C8, as stated, fails: in the text below \<open>Java\<close> appears before \<open>Python\<close>, and both
  extractions list \<open>Python\<close> first, as the vocabulary does.
\<close>

theorem requirement_tags_order_counterexample:
  "extract_requirements ''Java and Python'' = [''Python'', ''Java''] \<and>
   extract_skills_from_text ''Java and Python'' = [''Python'', ''Java'']"
  by code_simp

section \<open>Properties of the identity rotator\<close>

lemma get_next_proxy_off:
  "\<not> use_proxies config \<Longrightarrow> get_next_proxy config st = (Inr None, st)"
  by (simp add: get_next_proxy_def)

lemma after_requests_off:
  "\<not> use_proxies config \<Longrightarrow> after_requests config n st = st"
  by (induction n arbitrary: st) (simp_all add: get_next_proxy_off)

lemma after_requests_Suc:
  "after_requests config (Suc n) st = snd (get_next_proxy config (after_requests config n st))"
  by (induction n arbitrary: st) simp_all

lemma get_next_proxy_on:
  assumes "use_proxies config" "proxies st \<noteq> []"
  shows "proxies (snd (get_next_proxy config st)) = proxies st"
    and "request_count (snd (get_next_proxy config st)) = request_count st + 1"
    and "current_proxy_index (snd (get_next_proxy config st)) =
           (if request_count st mod 5 = 0
            then (current_proxy_index st + 1) mod length (proxies st)
            else current_proxy_index st)"
  using assms by (simp_all add: get_next_proxy_def Let_def)

lemma rotations_step:
  "(Suc n + 4) div 5 = (n + 4) div 5 + (if n mod 5 = 0 then 1 else 0)"
  by presburger

lemma load_proxy_list_nonempty: "load_proxy_list e \<noteq> []"
  by (simp add: load_proxy_list_def Let_def free_proxies_def)

lemma after_requests_on:
  assumes "use_proxies config"
  shows "proxies (after_requests config n (init_rotator e)) = load_proxy_list e \<and>
         request_count (after_requests config n (init_rotator e)) = n \<and>
         current_proxy_index (after_requests config n (init_rotator e)) =
           ((n + 4) div 5) mod length (load_proxy_list e)"
proof (induction n)
  case 0
  show ?case by (simp add: init_rotator_def)
next
  case (Suc n)
  let ?st = "after_requests config n (init_rotator e)"
  have ne: "proxies ?st \<noteq> []" using Suc.IH load_proxy_list_nonempty [of e] by simp
  note step = get_next_proxy_on [OF assms ne]
  have "current_proxy_index (snd (get_next_proxy config ?st)) =
          ((Suc n + 4) div 5) mod length (load_proxy_list e)"
  proof (cases "n mod 5 = 0")
    case True
    then show ?thesis
      using Suc.IH rotations_step [of n]
      by (simp only: step if_True) (simp add: mod_Suc_eq)
  next
    case False
    then show ?thesis
      using Suc.IH rotations_step [of n]
      by (simp only: step if_False) simp
  qed
  then show ?case using Suc.IH by (simp only: after_requests_Suc step) simp
qed

text \<open>
  C7, amended. On a freshly constructed scraper with proxies enabled, request number \<open>n\<close>
  (counted from 0 by the one request counter, whatever the source) is given entry
  \<open>(n div 5 + 1) mod len\<close> of the pool: the rotator advances to the next proxy once every
  5 requests. With proxies disabled every request is given no proxy (\<open>None\<close>, the direct
  connection) and the request counter stays at 0.
\<close>

theorem proxy_rotation:
  "nth_request config n (init_rotator e) =
     Inr (if use_proxies config
          then load_proxy_list e ! ((n div 5 + 1) mod length (load_proxy_list e))
          else None) \<and>
   request_count (after_requests config n (init_rotator e)) = (if use_proxies config then n else 0)"
proof (cases "use_proxies config")
  case False
  then show ?thesis
    by (simp add: nth_request_def after_requests_off get_next_proxy_off init_rotator_def)
next
  case True
  let ?st = "after_requests config n (init_rotator e)"
  let ?pool = "load_proxy_list e"
  note a = after_requests_on [OF True, of n e]
  have ne: "proxies ?st \<noteq> []" using a load_proxy_list_nonempty [of e] by simp
  note step = get_next_proxy_on [OF True ne]
  have len: "0 < length ?pool" using load_proxy_list_nonempty [of e] by simp
  have "(Suc n + 4) div 5 = n div 5 + 1" by presburger
  then have idx: "current_proxy_index (snd (get_next_proxy config ?st)) =
      (n div 5 + 1) mod length ?pool"
    using after_requests_on [OF True, of "Suc n" e] by (simp only: after_requests_Suc) 
  have "fst (get_next_proxy config ?st) =
      (if current_proxy_index (snd (get_next_proxy config ?st)) <
            length (proxies (snd (get_next_proxy config ?st)))
       then Inr (proxies (snd (get_next_proxy config ?st)) !
                   current_proxy_index (snd (get_next_proxy config ?st)))
       else Inl IndexError)"
    using True ne by (simp add: get_next_proxy_def Let_def)
  then have "fst (get_next_proxy config ?st) = Inr (?pool ! ((n div 5 + 1) mod length ?pool))"
    using len a by (simp only: idx step) simp
  then show ?thesis using True a by (simp add: nth_request_def)
qed

theorem proxy_rotation_witness:
  "nth_request (proxy_config True) 0 (init_rotator None) =
     Inr (Some \<lparr>http = ''http://proxy2.example.com:8080'',
                https = ''http://proxy2.example.com:8080''\<rparr>) \<and>
   nth_request (proxy_config True) 4 (init_rotator None) =
     Inr (Some \<lparr>http = ''http://proxy2.example.com:8080'',
                https = ''http://proxy2.example.com:8080''\<rparr>) \<and>
   nth_request (proxy_config True) 5 (init_rotator None) =
     Inr (Some \<lparr>http = ''http://proxy1.example.com:8080'',
                https = ''http://proxy1.example.com:8080''\<rparr>) \<and>
   request_count (after_requests (proxy_config True) 5 (init_rotator None)) = 5 \<and>
   nth_request (proxy_config False) 5 (init_rotator None) = Inr None"
proof -
  have on: "use_proxies (proxy_config True)" and off: "\<not> use_proxies (proxy_config False)"
    by (simp_all add: proxy_config_def)
  have pool: "load_proxy_list None =
     [Some \<lparr>http = ''http://proxy1.example.com:8080'',
             https = ''http://proxy1.example.com:8080''\<rparr>,
      Some \<lparr>http = ''http://proxy2.example.com:8080'',
             https = ''http://proxy2.example.com:8080''\<rparr>]"
    by (simp add: load_proxy_list_def free_proxies_def)
  show ?thesis
    using proxy_rotation [of "proxy_config True" 0 None]
      proxy_rotation [of "proxy_config True" 4 None]
      proxy_rotation [of "proxy_config True" 5 None]
      proxy_rotation [of "proxy_config False" 5 None]
    by (simp add: on off pool)
qed

text \<open>
  C7, as stated, fails: with rotation disabled the request is given \<open>None\<close>, not the
  first proxy of the pool.
\<close>

theorem proxy_rotation_disabled_counterexample:
  "\<not> use_proxies (proxy_config False) \<and>
   nth_request (proxy_config False) 0 (init_rotator None) = Inr None \<and>
   hd (proxies (init_rotator None)) =
     Some \<lparr>http = ''http://proxy1.example.com:8080'', https = ''http://proxy1.example.com:8080''\<rparr>"
  by (simp add: proxy_config_def nth_request_def get_next_proxy_def init_rotator_def
      load_proxy_list_def free_proxies_def)

section \<open>Properties of the compliance gate\<close>

text \<open>
  C2, amended. If robots.txt is consulted for a base address that is not in the cache and
  its retrieval raises, \<open>check_robots_txt\<close> returns true (fail-open) and caches nothing:
  the cache is left as it was, and a second call for the same base address retrieves
  robots.txt again.
\<close>

theorem robots_failure_not_cached:
  assumes "ScrapingConfig.respect_robots config"
    and "robots_cache st base = None"
    and "robots_read env (urljoin env base ''/robots.txt'') = Inl e"
  shows "check_robots_txt config env base endpoint st =
           (True, emit (Robots_read (urljoin env base ''/robots.txt'')) st) \<and>
         robots_cache (snd (check_robots_txt config env base endpoint st)) = robots_cache st \<and>
         check_robots_txt config env base endpoint (snd (check_robots_txt config env base endpoint st)) =
           (True, emit (Robots_read (urljoin env base ''/robots.txt''))
                    (emit (Robots_read (urljoin env base ''/robots.txt'')) st))"
  using assms by (simp add: check_robots_txt_def emit_def Let_def)

theorem robots_failure_not_cached_witness:
  "check_robots_txt default_config env_no_keys ''https://www.monster.com'' ''/jobs/search''
     init_scraper =
     (True, emit (Robots_read ''https://www.monster.com/robots.txt'') init_scraper) \<and>
   robots_cache (snd (check_robots_txt default_config env_no_keys ''https://www.monster.com''
     ''/jobs/search'' init_scraper)) = robots_cache init_scraper"
proof -
  have 1: "ScrapingConfig.respect_robots default_config" by (simp add: default_config_def)
  have 2: "robots_cache init_scraper ''https://www.monster.com'' = None"
    by (simp add: init_scraper_def)
  have 3: "robots_read env_no_keys (urljoin env_no_keys ''https://www.monster.com'' ''/robots.txt'')
      = Inl (OtherException ''unreachable'')"
    by (simp add: env_no_keys_def)
  have 4: "urljoin env_no_keys ''https://www.monster.com'' ''/robots.txt'' =
     ''https://www.monster.com/robots.txt''" by (simp add: env_no_keys_def)
  show ?thesis
    using robots_failure_not_cached [OF 1 2 3, of "''/jobs/search''"] by (simp only: 4) (simp add: emit_def)
qed

text \<open>
  C2, as stated, fails: where no robots.txt can be retrieved, the first call returns true
  and leaves the cache without an entry for the base address, and after the second call
  robots.txt has been retrieved twice.
\<close>

theorem robots_failure_cached_counterexample:
  "fst (check_robots_txt default_config env_no_keys ''https://www.monster.com'' ''/jobs/search''
          init_scraper) = True \<and>
   robots_cache (snd (check_robots_txt default_config env_no_keys ''https://www.monster.com''
          ''/jobs/search'' init_scraper)) ''https://www.monster.com'' = None \<and>
   events (snd (check_robots_txt default_config env_no_keys ''https://www.monster.com''
          ''/jobs/search''
          (snd (check_robots_txt default_config env_no_keys ''https://www.monster.com''
             ''/jobs/search'' init_scraper)))) =
     [Robots_read ''https://www.monster.com/robots.txt'',
      Robots_read ''https://www.monster.com/robots.txt'']"
  by (simp add: check_robots_txt_def emit_def Let_def default_config_def env_no_keys_def
      init_scraper_def)

section \<open>Properties of the rate scheduler\<close>

text \<open>
  C6, amended. Each wait of \<open>respectful_delay\<close> is the source's own \<open>rate_limit\<close> (the
  global \<open>delay_min\<close> only where the source has none; never the larger of the two) plus
  a jitter of \<open>random.random()\<close> times one second: for a random value in \<open>[0, 1)\<close> the
  wait lies between that minimum and one second above it; in particular a source whose
  \<open>rate_limit\<close> is 2 never waits less than 2 seconds.
\<close>

theorem respectful_delay_bounds:
  assumes "0 \<le> random_random env (rng st)" and "random_random env (rng st) < 1"
  shows "\<exists>delay. respectful_delay config env srcs name st =
                   emit (Sleep name delay) (st\<lparr>rng := rng st + 1\<rparr>) \<and>
                 source_min_delay config srcs name \<le> delay \<and>
                 delay \<le> source_min_delay config srcs name + 1 \<and>
                 (\<forall>sc. map_of srcs name = Some sc \<and> rate_limit sc = Some 2 \<longrightarrow> 2 \<le> delay)"
proof -
  let ?m = "source_min_delay config srcs name"
  let ?d = "uniform (random_random env (rng st)) ?m (?m + 1)"
  have d: "?d = ?m + random_random env (rng st)" by (simp add: uniform_def)
  have "respectful_delay config env srcs name st = emit (Sleep name ?d) (st\<lparr>rng := rng st + 1\<rparr>)"
    by (simp add: respectful_delay_def Let_def)
  moreover have "?m \<le> ?d" "?d \<le> ?m + 1" using assms by (simp_all add: d)
  moreover have "\<forall>sc. map_of srcs name = Some sc \<and> rate_limit sc = Some 2 \<longrightarrow> 2 \<le> ?d"
    using assms by (auto simp: uniform_def source_min_delay_def)
  ultimately show ?thesis by blast
qed

theorem respectful_delay_bounds_witness:
  "\<exists>delay. respectful_delay default_config env_no_keys legal_job_sources ''indeed'' init_scraper =
             emit (Sleep ''indeed'' delay) (init_scraper\<lparr>rng := rng init_scraper + 1\<rparr>) \<and>
     2 \<le> delay \<and> delay \<le> 3"
proof -
  have 1: "0 \<le> random_random env_no_keys (rng init_scraper)" by (simp add: env_no_keys_def)
  have 2: "random_random env_no_keys (rng init_scraper) < 1" by (simp add: env_no_keys_def)
  have 3: "source_min_delay default_config legal_job_sources ''indeed'' = 2"
    by (simp add: source_min_delay_def legal_job_sources_def)
  from respectful_delay_bounds [OF 1 2, of default_config legal_job_sources "''indeed''"]
  obtain delay where
    "respectful_delay default_config env_no_keys legal_job_sources ''indeed'' init_scraper =
       emit (Sleep ''indeed'' delay) (init_scraper\<lparr>rng := rng init_scraper + 1\<rparr>)"
    and "source_min_delay default_config legal_job_sources ''indeed'' \<le> delay"
    and "delay \<le> source_min_delay default_config legal_job_sources ''indeed'' + 1"
    by blast
  then show ?thesis unfolding 3 by (intro exI [of _ delay]) simp
qed

text \<open>
  C6, as stated, fails: with a global minimum delay of 5 seconds, the source \<open>indeed\<close>
  (\<open>rate_limit\<close> 2) waits 2 seconds, less than the larger of the two minima.
\<close>

theorem respectful_delay_global_minimum_counterexample:
  "map_of legal_job_sources ''indeed'' \<noteq> None \<and>
   rate_limit (the (map_of legal_job_sources ''indeed'')) = Some 2 \<and>
   delay_min slow_config = 5 \<and>
   events (respectful_delay slow_config env_no_keys legal_job_sources ''indeed'' init_scraper) =
     [Sleep ''indeed'' 2] \<and>
   (2 :: rat) < max 2 5"
  by (simp add: respectful_delay_def source_min_delay_def legal_job_sources_def uniform_def
      emit_def slow_config_def default_config_def env_no_keys_def init_scraper_def Let_def)

section \<open>Properties of the choice of the scraping path\<close>

lemma paths_taken_emit:
  "paths_taken (emit ev st) = paths_taken st @ (if is_path ev then [ev] else [])"
  by (simp add: paths_taken_def emit_def)

lemma paths_taken_respectful_delay:
  "paths_taken (respectful_delay config env srcs name st) = paths_taken st"
  by (simp add: respectful_delay_def Let_def paths_taken_def emit_def)

lemma paths_taken_check_robots_txt:
  "paths_taken (snd (check_robots_txt config env base endpoint st)) = paths_taken st"
  by (simp add: check_robots_txt_def Let_def paths_taken_def emit_def
      split: option.split sum.split)

lemma paths_taken_scrape_via_api:
  "paths_taken (snd (scrape_via_api env srcs name ps st)) = paths_taken st @ [Api_path name]"
  by (simp add: scrape_via_api_def Let_def paths_taken_emit split: option.split)

lemma paths_taken_scrape_via_web:
  "paths_taken (snd (scrape_via_web config env srcs name ps st)) =
     paths_taken st @ [Web_path name]"
proof (cases "map_of srcs name")
  case None
  then show ?thesis by (simp add: scrape_via_web_def Let_def paths_taken_emit)
next
  case (Some sc)
  obtain allowed st2 where c:
    "check_robots_txt config env (base_url sc) (search_endpoint sc) (emit (Web_path name) st) =
       (allowed, st2)"
    by (cases "check_robots_txt config env (base_url sc) (search_endpoint sc)
                 (emit (Web_path name) st)")
  have "paths_taken st2 = paths_taken st @ [Web_path name]"
    using paths_taken_check_robots_txt
      [of config env "base_url sc" "search_endpoint sc" "emit (Web_path name) st"]
    by (simp add: c paths_taken_emit)
  then show ?thesis
    using Some c by (simp add: scrape_via_web_def Let_def paths_taken_emit split: sum.split)
qed

lemma process_source_paths:
  "try_source config env srcs ps (name, sc) st = Some (r, st1) \<Longrightarrow>
   paths_taken (snd (process_source config env srcs ps (name, sc) (all_jobs, st))) =
     paths_taken st1"
  by (cases r) (simp_all add: process_source_def paths_taken_respectful_delay paths_taken_emit)

text \<open>
  C5, amended. In the iteration for a source whose legal status is \<open>API_AVAILABLE\<close> the
  API path is entered, whether or not an API credential is configured; for a source
  whose legal status is \<open>API_PREFERRED\<close> the API path is entered when the environment
  variable \<open><SOURCE>_API_KEY\<close> is set and not empty, and the HTML-scrape path exactly
  when it is not. In both cases that is the only path entered.
\<close>

theorem api_path_selection:
  assumes "legal_status sc = ''API_AVAILABLE'' \<or> legal_status sc = ''API_PREFERRED''"
  shows "paths_taken (snd (process_source config env srcs ps (name, sc) (all_jobs, st))) =
           paths_taken st @
             [if legal_status sc = ''API_AVAILABLE'' \<or> has_api_key env name
              then Api_path name else Web_path name]"
proof -
  obtain r st1 where t: "try_source config env srcs ps (name, sc) st = Some (r, st1)"
    using assms by (cases "scrape_via_api env srcs name ps st";
        cases "scrape_via_api_with_fallback config env srcs name ps st")
      (auto simp: try_source_def)
  have "paths_taken st1 = paths_taken st @
             [if legal_status sc = ''API_AVAILABLE'' \<or> has_api_key env name
              then Api_path name else Web_path name]"
  proof (cases "legal_status sc = ''API_AVAILABLE''")
    case True
    then have "(r, st1) = scrape_via_api env srcs name ps st"
      using t by (simp add: try_source_def)
    then have "st1 = snd (scrape_via_api env srcs name ps st)" by (metis snd_conv)
    then show ?thesis using True by (simp add: paths_taken_scrape_via_api)
  next
    case False
    then have p: "legal_status sc = ''API_PREFERRED''" using assms by simp
    then have "(r, st1) = scrape_via_api_with_fallback config env srcs name ps st"
      using t by (simp add: try_source_def)
    then have "st1 = snd (scrape_via_api_with_fallback config env srcs name ps st)"
      by (metis snd_conv)
    then show ?thesis
      using p by (simp add: scrape_via_api_with_fallback_def paths_taken_scrape_via_api
          paths_taken_scrape_via_web)
  qed
  then show ?thesis using process_source_paths [OF t] by simp
qed

theorem api_path_selection_witness:
  "paths_taken (snd (process_source default_config env_no_keys legal_job_sources
      default_search_params
      (''indeed'', the (map_of legal_job_sources ''indeed'')) ([], init_scraper))) =
     [Web_path ''indeed''] \<and>
   paths_taken (snd (process_source default_config env_no_keys legal_job_sources
      default_search_params
      (''remoteok'', the (map_of legal_job_sources ''remoteok'')) ([], init_scraper))) =
     [Api_path ''remoteok'']"
proof -
  have 1: "legal_status (the (map_of legal_job_sources ''indeed'')) = ''API_PREFERRED''"
    by (simp add: legal_job_sources_def)
  have 2: "legal_status (the (map_of legal_job_sources ''remoteok'')) = ''API_AVAILABLE''"
    by (simp add: legal_job_sources_def)
  have 3: "\<not> has_api_key env_no_keys ''indeed''"
    by (simp add: has_api_key_def env_no_keys_def)
  have 4: "paths_taken init_scraper = []" by (simp add: paths_taken_def init_scraper_def)
  show ?thesis
    using api_path_selection [of "the (map_of legal_job_sources ''indeed'')" default_config
        env_no_keys legal_job_sources default_search_params "''indeed''" "[]" init_scraper]
      api_path_selection [of "the (map_of legal_job_sources ''remoteok'')" default_config
        env_no_keys legal_job_sources default_search_params "''remoteok''" "[]" init_scraper]
    by (simp only: 1 2 3 4) simp
qed

text \<open>
  C5, as stated, fails: \<open>github_jobs\<close> is \<open>API_AVAILABLE\<close>, no credential is configured
  for it, and the API path is entered, not the HTML-scrape path.
\<close>

theorem api_available_fallback_counterexample:
  "legal_status (the (map_of legal_job_sources ''github_jobs'')) = ''API_AVAILABLE'' \<and>
   \<not> has_api_key env_no_keys ''github_jobs'' \<and>
   paths_taken (snd (process_source default_config env_no_keys legal_job_sources
      default_search_params
      (''github_jobs'', the (map_of legal_job_sources ''github_jobs'')) ([], init_scraper))) =
     [Api_path ''github_jobs'']"
  by (simp add: legal_job_sources_def has_api_key_def env_no_keys_def process_source_def
      try_source_def scrape_via_api_def paths_taken_def emit_def init_scraper_def Let_def)

text \<open>
  C10. A source whose legal status is \<open>API_ONLY\<close> is skipped unconditionally: whatever
  the credential configuration \<open>creds\<close> (also one where its API key is present), its
  iteration leaves the accumulated listings and the scraper's state unchanged, so it
  contributes no listing and enters no scraping path.
\<close>

theorem api_only_always_skipped:
  assumes "legal_status sc = ''API_ONLY''"
  shows "process_source config (env\<lparr>getenv := creds\<rparr>) srcs ps (name, sc) (all_jobs, st) =
           (all_jobs, st)"
  using assms by (simp add: process_source_def try_source_def)

theorem api_only_always_skipped_witness:
  "has_api_key (env_no_keys\<lparr>getenv := getenv env_linkedin_key\<rparr>) ''linkedin'' \<and>
   process_source default_config (env_no_keys\<lparr>getenv := getenv env_linkedin_key\<rparr>)
     legal_job_sources default_search_params
     (''linkedin'', the (map_of legal_job_sources ''linkedin'')) ([], init_scraper) =
     ([], init_scraper)"
proof -
  have 1: "legal_status (the (map_of legal_job_sources ''linkedin'')) = ''API_ONLY''"
    by (simp add: legal_job_sources_def)
  have u: "upper ''linkedin'' = ''LINKEDIN''" by code_simp
  have 2: "has_api_key (env_no_keys\<lparr>getenv := getenv env_linkedin_key\<rparr>) ''linkedin''"
    by (simp add: has_api_key_def env_linkedin_key_def env_no_keys_def u)
  show ?thesis using api_only_always_skipped [OF 1] 2 by simp
qed

section \<open>Properties of the comprehensive run\<close>

lemma process_sources_append:
  "process_sources config env srcs ps (xs @ ys) acc =
     process_sources config env srcs ps ys (process_sources config env srcs ps xs acc)"
  by (induction xs arbitrary: acc) simp_all



text \<open>The definitions unfolded to evaluate a run on the sample inputs.\<close>

lemmas run_defs = process_source_def try_source_def scrape_via_api_def scrape_via_web_def
  scrape_via_api_with_fallback_def has_api_key_def check_robots_txt_def respectful_delay_def
  source_min_delay_def uniform_def emit_def Let_def default_config_def env_no_keys_def
  init_scraper_def legal_job_sources_def

lemma sample_keys:
  "job_identifier (listing ''Data Analyst'' ''Globex'' ''Pune'' ''monster'') =
     ''data analyst_globex_pune''"
  "job_identifier (listing ''Backend Engineer'' ''Initech'' ''Remote'' ''remoteok'') =
     ''backend engineer_initech_remote''"
  by code_simp+

text \<open>
  C4. A source whose access policy is \<open>API_ONLY\<close> and for which no API credential is
  present is skipped entirely: the run over all sources returns the listings and ends in
  the state (with its logged errors) of the loop run over the other sources only, so the
  source contributes no listing and no error.
\<close>

theorem api_only_without_credential_skipped:
  assumes "legal_status sc = ''API_ONLY''" and "\<not> has_api_key env name"
  shows "scrape_jobs_comprehensive config env (pre @ (name, sc) # post) search_params st =
           (remove_duplicates
              (fst (process_sources config env (pre @ (name, sc) # post)
                      (effective_params search_params) (pre @ post) ([], st))),
            snd (process_sources config env (pre @ (name, sc) # post)
                   (effective_params search_params) (pre @ post) ([], st)))"
proof -
  let ?srcs = "pre @ (name, sc) # post"
  let ?ps = "effective_params search_params"
  have skip: "process_source config env ?srcs ?ps (name, sc) acc = acc" for acc
    using assms(1) by (cases acc) (simp add: process_source_def try_source_def)
  have "process_sources config env ?srcs ?ps ?srcs ([], st) =
      process_sources config env ?srcs ?ps (pre @ post) ([], st)"
    by (simp add: process_sources_append skip)
  then show ?thesis by (simp add: scrape_jobs_comprehensive_def Let_def)
qed

theorem api_only_without_credential_skipped_witness:
  "legal_status (snd (legal_job_sources ! 1)) = ''API_ONLY'' \<and>
   \<not> has_api_key env_no_keys ''linkedin'' \<and>
   scrape_jobs_comprehensive default_config env_no_keys legal_job_sources None init_scraper =
     (remove_duplicates
        (fst (process_sources default_config env_no_keys legal_job_sources default_search_params
                (take 1 legal_job_sources @ drop 2 legal_job_sources) ([], init_scraper))),
      snd (process_sources default_config env_no_keys legal_job_sources default_search_params
             (take 1 legal_job_sources @ drop 2 legal_job_sources) ([], init_scraper))) \<and>
   fst (scrape_jobs_comprehensive default_config env_no_keys legal_job_sources None
          init_scraper) =
     [listing ''Data Analyst'' ''Globex'' ''Pune'' ''monster'',
      listing ''Backend Engineer'' ''Initech'' ''Remote'' ''remoteok'']"
proof -
  have 1: "legal_status (snd (legal_job_sources ! 1)) = ''API_ONLY''"
    by (simp add: legal_job_sources_def)
  have 2: "\<not> has_api_key env_no_keys ''linkedin''"
    by (simp add: has_api_key_def env_no_keys_def)
  have 3: "take 1 legal_job_sources @ (''linkedin'', snd (legal_job_sources ! 1)) #
      drop 2 legal_job_sources = legal_job_sources"
    by (simp add: legal_job_sources_def)
  have 4: "effective_params None = default_search_params" by (simp add: effective_params_def)
  have 5: "fst (process_sources default_config env_no_keys legal_job_sources
      default_search_params (take 1 legal_job_sources @ drop 2 legal_job_sources)
      ([], init_scraper)) =
     [listing ''Data Analyst'' ''Globex'' ''Pune'' ''monster'',
      listing ''Backend Engineer'' ''Initech'' ''Remote'' ''remoteok'']"
    by (simp add: run_defs)
  have 6: "remove_duplicates [listing ''Data Analyst'' ''Globex'' ''Pune'' ''monster'',
      listing ''Backend Engineer'' ''Initech'' ''Remote'' ''remoteok''] =
     [listing ''Data Analyst'' ''Globex'' ''Pune'' ''monster'',
      listing ''Backend Engineer'' ''Initech'' ''Remote'' ''remoteok'']"
    by (simp add: remove_duplicates_def sample_keys)
  have 7: "scrape_jobs_comprehensive default_config env_no_keys legal_job_sources None
      init_scraper =
     (remove_duplicates
        (fst (process_sources default_config env_no_keys legal_job_sources default_search_params
                (take 1 legal_job_sources @ drop 2 legal_job_sources) ([], init_scraper))),
      snd (process_sources default_config env_no_keys legal_job_sources default_search_params
             (take 1 legal_job_sources @ drop 2 legal_job_sources) ([], init_scraper)))"
    using api_only_without_credential_skipped [OF 1 2, of default_config
        "take 1 legal_job_sources" "drop 2 legal_job_sources" None init_scraper]
    by (simp only: 3 4)
  have 8: "fst (scrape_jobs_comprehensive default_config env_no_keys legal_job_sources None
          init_scraper) =
     [listing ''Data Analyst'' ''Globex'' ''Pune'' ''monster'',
      listing ''Backend Engineer'' ''Initech'' ''Remote'' ''remoteok'']"
    by (simp only: 7 5 6 fst_conv)
  show ?thesis using 1 2 7 8 by blast
qed




end
